theory Spec2Isabelle
  imports Main
begin

section \<open>The HTTP client of clockify-cli (src/http/http.go)\<close>

text \<open>
  A shallow embedding of package \<^verbatim>\<open>http\<close>: \<^verbatim>\<open>NewHttpClient\<close>, \<^verbatim>\<open>transport.RoundTrip\<close>,
  \<^verbatim>\<open>Client.logf\<close>, \<^verbatim>\<open>Client.NewRequest\<close> and \<^verbatim>\<open>Client.Do\<close>.

  The package is a thin layer over Go's standard library (\<^verbatim>\<open>net/url\<close>, \<^verbatim>\<open>net/http\<close>,
  \<^verbatim>\<open>encoding/json\<close>, \<^verbatim>\<open>io\<close>) and \<^verbatim>\<open>github.com/pkg/errors\<close>. None of that code belongs
  to the repository, so every library function the package calls is a field of the
  record \<open>lib\<close> below and the package's functions take the record as their first
  argument: what is proved holds for every behaviour of the library.

  Go's functions return \<^verbatim>\<open>(pointer, error)\<close> pairs; the model returns a pair of options,
  \<open>None\<close> for nil. The only mutable state the package touches besides its arguments is
  the logger's, which \<open>NewRequest\<close> and \<open>Do\<close> take and return, and the one
  \<^verbatim>\<open>bytes.Buffer\<close> each of them allocates and hands to the logger.
\<close>

subsection \<open>Errors\<close>

text \<open>An error of the standard library, by its message.\<close>

type_synonym lib_error = string

text \<open>\<^verbatim>\<open>type Error struct { Message string `json:"message"`; Code int `json:"code"` }\<close>\<close>

record Error =
  Message :: string
  Code :: int

text \<open>
  A Go \<^verbatim>\<open>error\<close> interface value by its dynamic type: \<^verbatim>\<open>*errors.errorString\<close> (made
  by \<^verbatim>\<open>errors.New\<close>), the package's own \<^verbatim>\<open>Error\<close>, an error of the standard library,
  and \<^verbatim>\<open>*withStack\<close> of pkg/errors, which wraps another error (the recorded stack is
  diagnostics and is left out).
\<close>

datatype err =
    errorString string
  | ErrorValue Error
  | LibError lib_error
  | withStack err

text \<open>\<^verbatim>\<open>stackedErrors.WithStack(err)\<close>: nil for a nil error, the wrapped error otherwise.\<close>

fun WithStack :: "err option \<Rightarrow> err option" where
  "WithStack None = None"
| "WithStack (Some e) = Some (withStack e)"

text \<open>\<^verbatim>\<open>var ErrorMissingAPIKey = errors.New("api Key must be informed")\<close>\<close>

definition ErrorMissingAPIKey :: err where
  "ErrorMissingAPIKey = errorString ''api Key must be informed''"

text \<open>\<^verbatim>\<open>var ErrorNotFound = Error{Message: "Nothing was found"}\<close>: \<^verbatim>\<open>Code\<close> keeps Go's zero value.\<close>

definition ErrorNotFound :: Error where
  "ErrorNotFound = \<lparr>Message = ''Nothing was found'', Code = 0\<rparr>"

subsection \<open>Requests, responses and the transport\<close>

text \<open>
  \<^verbatim>\<open>http.Header\<close> is a \<^verbatim>\<open>map[string][]string\<close>. \<^verbatim>\<open>Header.Set\<close> replaces the values of the
  key by the single given one. It canonicalises the key first; the three keys the
  package sets (\<^verbatim>\<open>X-Api-Key\<close>, \<^verbatim>\<open>Content-Type\<close>, \<^verbatim>\<open>Accept\<close>) are canonical as written.
\<close>

type_synonym Header = "string \<rightharpoonup> string list"

definition Header_Set :: "string \<Rightarrow> string \<Rightarrow> Header \<Rightarrow> Header" where
  "Header_Set k v h = h(k \<mapsto> [v])"

text \<open>
  The fields of \<^verbatim>\<open>http.Request\<close> the package reads or writes: the method, the URL (as
  the string it was built from), the header and the body buffer (\<open>None\<close>: no body).
\<close>

record request =
  Method :: string
  URL :: string
  Header :: Header
  ReqBody :: "string option"

text \<open>\<^verbatim>\<open>req.Header.Set(k, v)\<close>\<close>

definition set_Header :: "string \<Rightarrow> string \<Rightarrow> request \<Rightarrow> request" where
  "set_Header k v req = req\<lparr>Header := Header_Set k v (Header req)\<rparr>"

text \<open>\<^verbatim>\<open>http.Response\<close>: the status code and the body reader, of a type \<open>'b\<close> of the library.\<close>

record 'b response =
  StatusCode :: int
  Body :: 'b

text \<open>
  What \<^verbatim>\<open>RoundTrip\<close> and \<^verbatim>\<open>http.Client.Do\<close> return: an error (next to a response that
  may be nil), or a response and no error. \<^verbatim>\<open>http.Client.Do\<close> never returns nil and nil.
\<close>

datatype 'b outcome =
    Failed "'b response option" lib_error
  | Got "'b response"

text \<open>\<^verbatim>\<open>type transport struct { apiKey string; next http.RoundTripper }\<close>\<close>

record 'b transport =
  apiKey :: string
  "next" :: "request \<Rightarrow> 'b outcome"

text \<open>
  \<^verbatim>\<open>func (t transport) RoundTrip(r *http.Request)\<close>: sets the header on the request it was
  given, then hands that request to the next transport.
\<close>

definition RoundTrip :: "'b transport \<Rightarrow> request \<Rightarrow> 'b outcome" where
  "RoundTrip t r = next t (set_Header ''X-Api-Key'' (apiKey t) r)"

subsection \<open>The logger\<close>

text \<open>
  An argument handed to \<^verbatim>\<open>Printf\<close>: a string, an int, the pointer to the
  \<^verbatim>\<open>bytes.Buffer\<close> of the call, or a \<^verbatim>\<open>[]interface{}\<close>.
\<close>

datatype arg =
    AString string
  | AInt int
  | ABuffer
  | ASlice "arg list"

text \<open>
  \<^verbatim>\<open>type Logger interface { Printf(string, ...interface{}) }\<close>. \<^verbatim>\<open>NewRequest\<close> and \<^verbatim>\<open>Do\<close> hand
  \<^verbatim>\<open>Printf\<close> the \<^verbatim>\<open>*bytes.Buffer\<close> they go on to use, so a \<^verbatim>\<open>Printf\<close> can read from that buffer
  or write to it. A buffer is modelled by its unread content, which is what
  \<^verbatim>\<open>buf.Len()\<close>, \<^verbatim>\<open>json.NewDecoder(buf)\<close> and \<^verbatim>\<open>http.NewRequest(method, url, buf)\<close> see.
  \<^verbatim>\<open>Printf\<close> takes the format, the arguments, and the pair of the buffer's content and
  the logger's own state \<open>'s\<close>; it returns the pair as it leaves it.
\<close>

type_synonym 's Logger = "string \<Rightarrow> arg list \<Rightarrow> string \<times> 's \<Rightarrow> string \<times> 's"

subsection \<open>The client\<close>

text \<open>
  \<^verbatim>\<open>type Client struct { baseURL url.URL; http.Client; Logger Logger }\<close>. Of the embedded
  \<^verbatim>\<open>http.Client\<close> the model keeps the \<^verbatim>\<open>Transport\<close>, by its \<^verbatim>\<open>RoundTrip\<close> method. \<open>'u\<close> is
  the library's \<^verbatim>\<open>url.URL\<close>.
\<close>

record ('u, 'b, 's) Client =
  baseURL :: 'u
  Transport :: "request \<Rightarrow> 'b outcome"
  Logger :: "'s Logger option"

text \<open>
  The value of an \<^verbatim>\<open>interface{}\<close> body argument by what the package asks of it: whether
  its dynamic type implements \<^verbatim>\<open>QueryAppender\<close> (then with its \<^verbatim>\<open>AppendToQuery\<close> method)
  or not. A nil interface is \<open>None\<close> of \<open>body option\<close>.
\<close>

datatype ('v, 'u) body =
    Plain 'v
  | QueryAppender 'v "'u \<Rightarrow> 'u"

fun val :: "('v, 'u) body \<Rightarrow> 'v" where
  "val (Plain v) = v"
| "val (QueryAppender v qa) = v"

subsection \<open>The standard library\<close>

text \<open>
  The library functions the package calls, as parameters:
  \<^item> \<open>url_Parse\<close>: \<^verbatim>\<open>url.Parse(rawURL)\<close>;
  \<^item> \<open>URL_Path\<close>: the field \<^verbatim>\<open>Path\<close> of a \<^verbatim>\<open>url.URL\<close>;
  \<^item> \<open>URL_Parse\<close>: \<^verbatim>\<open>(*url.URL).Parse(ref)\<close>, resolving a reference against a URL;
  \<^item> \<open>URL_String\<close>: \<^verbatim>\<open>(*url.URL).String()\<close>;
  \<^item> \<open>json_Encode\<close>: \<^verbatim>\<open>json.NewEncoder(buf).Encode(v)\<close> on a fresh buffer: an error or
    the bytes written;
  \<^item> \<open>http_NewRequest_err\<close>: the error \<^verbatim>\<open>http.NewRequest(method, url, body)\<close> returns, if
    any;
  \<^item> \<open>DefaultTransport\<close>: \<^verbatim>\<open>http.DefaultTransport.RoundTrip\<close>, the network;
  \<^item> \<open>http_Client_Do\<close>: \<^verbatim>\<open>(*http.Client).Do(req)\<close> of a client with the given transport;
  \<^item> \<open>io_Copy\<close>: \<^verbatim>\<open>io.Copy(buf, body)\<close> into a fresh buffer: an error or the bytes read;
  \<^item> \<open>json_Decode_Error\<close>: \<^verbatim>\<open>json.NewDecoder(buf).Decode(&apiErr)\<close> for an \<^verbatim>\<open>Error\<close>: the
    value of \<^verbatim>\<open>apiErr\<close> afterwards and the error, if any;
  \<^item> \<open>json_Decode\<close>: \<^verbatim>\<open>json.NewDecoder(buf).Decode(v)\<close> for a destination of the caller's:
    the destination afterwards and the error, if any.
\<close>

record ('u, 'v, 'd, 'b) lib =
  url_Parse :: "string \<Rightarrow> lib_error + 'u"
  URL_Path :: "'u \<Rightarrow> string"
  URL_Parse :: "'u \<Rightarrow> string \<Rightarrow> lib_error + 'u"
  URL_String :: "'u \<Rightarrow> string"
  json_Encode :: "'v \<Rightarrow> lib_error + string"
  http_NewRequest_err :: "string \<Rightarrow> string \<Rightarrow> lib_error option"
  DefaultTransport :: "request \<Rightarrow> 'b outcome"
  http_Client_Do :: "(request \<Rightarrow> 'b outcome) \<Rightarrow> request \<Rightarrow> 'b outcome"
  io_Copy :: "'b \<Rightarrow> lib_error + string"
  json_Decode_Error :: "string \<Rightarrow> Error \<Rightarrow> Error \<times> lib_error option"
  json_Decode :: "string \<Rightarrow> 'd \<Rightarrow> 'd \<times> lib_error option"

text \<open>\<^verbatim>\<open>strings.Join(elems, sep)\<close>\<close>

fun strings_Join :: "string list \<Rightarrow> string \<Rightarrow> string" where
  "strings_Join [] sep = []"
| "strings_Join [x] sep = x"
| "strings_Join (x # y # ys) sep = x @ sep @ strings_Join (y # ys) sep"

text \<open>
  Modelled from the spec: \<^verbatim>\<open>http.NewRequest\<close> of Go's net/http, which is not under src/.
  Section 4.3, step 5: "Construct the underlying request with method, resolved URL,
  and buffer (or no body)"; the header of the new request is empty. When the call
  fails is left to the parameter \<open>http_NewRequest_err\<close>.
\<close>

definition http_NewRequest ::
  "('u, 'v, 'd, 'b) lib \<Rightarrow> string \<Rightarrow> string \<Rightarrow> string option \<Rightarrow> lib_error + request" where
  "http_NewRequest lib method url buf =
     (case http_NewRequest_err lib method url of
        Some e \<Rightarrow> Inl e
      | None \<Rightarrow> Inr \<lparr>Method = method, URL = url, Header = Map.empty, ReqBody = buf\<rparr>)"

subsection \<open>NewHttpClient\<close>

definition NewHttpClient ::
  "('u, 'v, 'd, 'b) lib \<Rightarrow> string \<Rightarrow> string \<Rightarrow> ('u, 'b, 's) Client option \<times> err option" where
  "NewHttpClient lib baseURL' apiKey' =
     (if length apiKey' = 0 then (None, WithStack (Some ErrorMissingAPIKey))
      else case url_Parse lib baseURL' of
        Inl e \<Rightarrow> (None, WithStack (Some (LibError e)))
      | Inr u \<Rightarrow>
          (Some \<lparr>baseURL = u,
                 Transport = RoundTrip \<lparr>apiKey = apiKey', next = DefaultTransport lib\<rparr>,
                 Logger = None\<rparr>,
           None))"

subsection \<open>logf\<close>

text \<open>
  \<^verbatim>\<open>c.Logger.Printf(format, v)\<close> passes the slice \<^verbatim>\<open>v\<close> as one argument (the source does not
  write \<^verbatim>\<open>v...\<close>). The pair is the buffer of the caller and the logger's state; with no
  logger both stay as they are.
\<close>

definition logf ::
  "('u, 'b, 's) Client \<Rightarrow> string \<Rightarrow> arg list \<Rightarrow> string \<times> 's \<Rightarrow> string \<times> 's" where
  "logf c format v bs =
     (case Logger c of
        None \<Rightarrow> bs
      | Some Printf \<Rightarrow> Printf format [ASlice v] bs)"

subsection \<open>NewRequest\<close>

text \<open>
  \<^verbatim>\<open>func (c *Client) NewRequest(method, uri string, body interface{})\<close>, in the order of
  the source: resolve the URL; apply the body's \<^verbatim>\<open>AppendToQuery\<close> if it has one; drop the
  body of a GET; encode what is left of the body into a buffer and log the buffer;
  build the request from the buffer as the logger left it; set \<^verbatim>\<open>Content-Type\<close> if a
  body is left; set \<^verbatim>\<open>Accept\<close>.
\<close>

definition NewRequest ::
  "('u, 'v, 'd, 'b) lib \<Rightarrow> ('u, 'b, 's) Client \<Rightarrow> string \<Rightarrow> string \<Rightarrow> ('v, 'u) body option \<Rightarrow> 's
     \<Rightarrow> (request option \<times> err option) \<times> 's" where
  "NewRequest lib c method uri body s =
     (case URL_Parse lib (baseURL c) (strings_Join [URL_Path lib (baseURL c), uri] ''/'') of
        Inl e \<Rightarrow> ((None, Some (LibError e)), s)
      | Inr u0 \<Rightarrow>
          let u = (case body of Some (QueryAppender x qa) \<Rightarrow> qa u0 | _ \<Rightarrow> u0);
              body = (if method = ''GET'' then None else body)
          in (case (case body of
                     None \<Rightarrow> Inr (None, s)
                   | Some b \<Rightarrow>
                       (case json_Encode lib (val b) of
                          Inl e \<Rightarrow> Inl e
                        | Inr bs \<Rightarrow>
                            (case logf c ''request body: %s'' [ABuffer] (bs, s) of
                               (buf, s') \<Rightarrow> Inr (Some buf, s')))) of
               Inl e \<Rightarrow> ((None, Some (LibError e)), s)
             | Inr (buf, s') \<Rightarrow>
                 (case http_NewRequest lib method (URL_String lib u) buf of
                    Inl e \<Rightarrow> ((None, Some (LibError e)), s')
                  | Inr req \<Rightarrow>
                      let req = (case body of
                                   None \<Rightarrow> req
                                 | Some b \<Rightarrow> set_Header ''Content-Type'' ''application/json'' req)
                      in ((Some (set_Header ''Accept'' ''application/json'' req), None), s'))))"

subsection \<open>Do\<close>

text \<open>\<^verbatim>\<open>var apiErr Error\<close>: the zero value the error body is decoded into.\<close>

definition zero_Error :: Error where
  "zero_Error = \<lparr>Message = [], Code = 0\<rparr>"

text \<open>
  \<^verbatim>\<open>func (c *Client) Do(req *http.Request, v interface{})\<close>. The destination \<^verbatim>\<open>v\<close> is a
  pointer the decoder writes through, so the model returns the destination next to
  the response and the error (\<open>None\<close>: \<^verbatim>\<open>v == nil\<close>). \<^verbatim>\<open>req.URL.String()\<close> is the \<open>URL\<close> of
  the request. The body is copied into a buffer, the buffer is logged, and the decoder
  and \<^verbatim>\<open>buf.Len()\<close> read the buffer as the logger left it. The deferred
  \<^verbatim>\<open>r.Body.Close()\<close> has no part in what is returned and is left out. The header that
  \<open>RoundTrip\<close> writes reaches the next transport; the caller's request is not returned.
\<close>

definition Do ::
  "('u, 'v, 'd, 'b) lib \<Rightarrow> ('u, 'b, 's) Client \<Rightarrow> request \<Rightarrow> 'd option \<Rightarrow> 's
     \<Rightarrow> ('b response option \<times> err option \<times> 'd option) \<times> 's" where
  "Do lib c req v s =
     (case http_Client_Do lib (Transport c) req of
        Failed r e \<Rightarrow> ((r, Some (LibError e), v), s)
      | Got r \<Rightarrow>
          (case io_Copy lib (Body r) of
             Inl e \<Rightarrow> ((None, WithStack (Some (LibError e)), v), s)
           | Inr copied \<Rightarrow>
               (case logf c ''url: %s, status: %d, body: \"%s\"''
                       [AString (URL req), AInt (StatusCode r), ABuffer] (copied, s) of
                  (buf, s) \<Rightarrow>
                    if StatusCode r = 404 then
                      ((Some r, WithStack (Some (ErrorValue ErrorNotFound)), v), s)
                    else if StatusCode r < 200 \<or> StatusCode r > 300 then
                      (case json_Decode_Error lib buf zero_Error of
                         (apiErr, Some e) \<Rightarrow> ((Some r, WithStack (Some (LibError e)), v), s)
                       | (apiErr, None) \<Rightarrow> ((Some r, WithStack (Some (ErrorValue apiErr)), v), s))
                    else
                      (case v of
                         None \<Rightarrow> ((Some r, None, v), s)
                       | Some d \<Rightarrow>
                           if length buf = 0 then ((Some r, None, v), s)
                           else
                             (case json_Decode lib buf d of
                                (d', e) \<Rightarrow>
                                  ((Some r, WithStack (map_option LibError e), Some d'), s))))))"

subsection \<open>Loggers that leave the buffer alone\<close>

text \<open>
  A client whose logging leaves every buffer as it found it: a client with no logger,
  or with a \<^verbatim>\<open>Printf\<close> that only formats what it is handed (a \<^verbatim>\<open>*bytes.Buffer\<close> is formatted
  through its \<^verbatim>\<open>String\<close> method, which reads nothing off it).
\<close>

definition keeps_buffer :: "('u, 'b, 's) Client \<Rightarrow> bool" where
  "keeps_buffer c \<longleftrightarrow> (\<forall>format v buf s. fst (logf c format v (buf, s)) = buf)"

subsection \<open>A library instance for the examples\<close>

text \<open>
  The theorems below hold for every library. Their hypotheses are shown to be
  satisfiable on the following small instance: a URL is an origin and a path (with
  query), a body value and a decode destination are strings, JSON encoding quotes a
  string and appends the newline \<^verbatim>\<open>Encode\<close> writes, an error body is decoded by a
  table of two bodies, and a response body is its content.
\<close>

definition boom_body :: string where
  \<open>boom_body = ''{"message":"boom","code":42}''\<close>

definition not_found_body :: string where
  \<open>not_found_body = ''{"message":"Nothing was found","code":0}''\<close>

definition test_url_Parse :: "string \<Rightarrow> lib_error + string \<times> string" where
  "test_url_Parse raw =
     (if CHR '' '' \<in> set raw then Inl ''invalid character in URL''
      else
        let scheme = takeWhile (\<lambda>ch. ch \<noteq> CHR '':'') raw;
            rest = drop 3 (dropWhile (\<lambda>ch. ch \<noteq> CHR '':'') raw)
        in Inr (scheme @ ''://'' @ takeWhile (\<lambda>ch. ch \<noteq> CHR ''/'') rest,
                dropWhile (\<lambda>ch. ch \<noteq> CHR ''/'') rest))"

definition test_json_Decode :: "string \<Rightarrow> string \<Rightarrow> string \<times> lib_error option" where
  "test_json_Decode buf d =
     (case buf of
        [] \<Rightarrow> (d, Some ''EOF'')
      | q # rest \<Rightarrow>
          if q = CHR 0x22 \<and> 2 \<le> length rest
             \<and> drop (length rest - 2) rest = [CHR 0x22, CHR 0x0A]
          then (take (length rest - 2) rest, None)
          else (d, Some ''invalid character''))"

definition test_lib :: "(string \<times> string, string, string, string) lib" where
  "test_lib =
     \<lparr>url_Parse = test_url_Parse,
      URL_Path = snd,
      URL_Parse = (\<lambda>u ref. Inr (fst u, ref)),
      URL_String = (\<lambda>u. fst u @ snd u),
      json_Encode = (\<lambda>v.
         if CHR 0x22 \<in> set v then Inl ''unsupported value''
         else Inr (CHR 0x22 # v @ [CHR 0x22, CHR 0x0A])),
      http_NewRequest_err = (\<lambda>method url. None),
      DefaultTransport = (\<lambda>req. Failed None ''no network''),
      http_Client_Do = (\<lambda>rt req. rt req),
      io_Copy = Inr,
      json_Decode_Error = (\<lambda>buf e.
         if buf = boom_body then (\<lparr>Message = ''boom'', Code = 42\<rparr>, None)
         else if buf = not_found_body then (\<lparr>Message = ''Nothing was found'', Code = 0\<rparr>, None)
         else (e, Some ''invalid character'')),
      json_Decode = test_json_Decode\<rparr>"



text \<open>
  The logger of the examples appends what it is handed, and the buffer content it
  finds, to a list; it leaves the buffer as it is.
\<close>

type_synonym test_log = "(string \<times> arg list \<times> string) list"

definition test_logger :: "test_log Logger" where
  "test_logger format v bs = (fst bs, snd bs @ [(format, v, fst bs)])"

text \<open>A logger that reads the buffer it is handed to its end, as \<^verbatim>\<open>io.ReadAll\<close> does.\<close>

definition draining_logger :: "test_log Logger" where
  "draining_logger format v bs = ([], snd bs @ [(format, v, fst bs)])"


definition test_client ::
  "(request \<Rightarrow> string outcome) \<Rightarrow> (string \<times> string, string, test_log) Client" where
  "test_client rt =
     \<lparr>baseURL = (''https://api.clockify.me'', ''/api''),
      Transport = rt,
      Logger = Some test_logger\<rparr>"

definition test_request :: request where
  "test_request =
     \<lparr>Method = ''GET'', URL = ''https://api.clockify.me/api/workspaces'',
      Header = [''Accept'' \<mapsto> [''application/json'']], ReqBody = None\<rparr>"

text \<open>A transport that answers every request with the given status and body.\<close>

definition reply :: "int \<Rightarrow> string \<Rightarrow> request \<Rightarrow> string outcome" where
  "reply status content req = Got \<lparr>StatusCode = status, Body = content\<rparr>"

text \<open>A \<^verbatim>\<open>QueryAppender\<close> of the examples: it appends a query to the path.\<close>

definition page_2 :: "string \<times> string \<Rightarrow> string \<times> string" where
  "page_2 u = (fst u, snd u @ ''?page=2'')"

lemmas test_defs =
  test_lib_def test_client_def test_request_def reply_def test_url_Parse_def
  test_json_Decode_def page_2_def test_logger_def

section \<open>Properties\<close>

subsection \<open>Logging\<close>

lemma keeps_buffer_no_Logger: "keeps_buffer (c\<lparr>Logger := None\<rparr>)"
  by (simp add: keeps_buffer_def logf_def)


lemma logf_keeps_buffer:
  "keeps_buffer c \<Longrightarrow> logf c format v (buf, s) = (buf, snd (logf c format v (buf, s)))"
  by (simp add: keeps_buffer_def prod_eq_iff)

subsection \<open>NewHttpClient\<close>

text \<open>
  C4. \<open>NewHttpClient\<close> with an empty API key returns no client and the wrapped
  \<open>ErrorMissingAPIKey\<close>, whatever the base URL. With a non-empty key and a base URL that
  \<^verbatim>\<open>url.Parse\<close> accepts it returns a client and no error: the client holds the parsed
  URL, the transport that carries the key over the default transport, and no logger.
  Construction performs no network I/O: the network (\<open>DefaultTransport\<close>, driven by
  \<open>http_Client_Do\<close> and read by \<open>io_Copy\<close>) is stored in the client and not run, so the
  error and the base URL returned are the same for every behaviour of the network.
\<close>

theorem NewHttpClient_apiKey:
  "(NewHttpClient lib baseURL' [] :: ('u, 'b, 's) Client option \<times> err option) =
     (None, Some (withStack ErrorMissingAPIKey))
   \<and> (apiKey' \<noteq> [] \<and> url_Parse lib baseURL' = Inr u \<longrightarrow>
        (NewHttpClient lib baseURL' apiKey' :: ('u, 'b, 's) Client option \<times> err option) =
          (Some \<lparr>baseURL = u,
                 Transport = RoundTrip \<lparr>apiKey = apiKey', next = DefaultTransport lib\<rparr>,
                 Logger = None\<rparr>,
           None))
   \<and> map_prod (map_option baseURL) id
        (NewHttpClient (lib\<lparr>DefaultTransport := net, http_Client_Do := run, io_Copy := copy\<rparr>)
           baseURL' apiKey' :: ('u, 'b, 's) Client option \<times> err option) =
      map_prod (map_option baseURL) id
        (NewHttpClient lib baseURL' apiKey' :: ('u, 'b, 's) Client option \<times> err option)"
  by (simp add: NewHttpClient_def split: sum.splits)

theorem NewHttpClient_apiKey_witness:
  "(NewHttpClient test_lib ''https://api.clockify.me/api'' []
      :: (string \<times> string, string, test_log) Client option \<times> err option) =
     (None, Some (withStack (errorString ''api Key must be informed'')))
   \<and> ''secret'' \<noteq> []
   \<and> url_Parse test_lib ''https://api.clockify.me/api'' = Inr (''https://api.clockify.me'', ''/api'')
   \<and> (NewHttpClient test_lib ''https://api.clockify.me/api'' ''secret''
      :: (string \<times> string, string, test_log) Client option \<times> err option) =
     (Some \<lparr>baseURL = (''https://api.clockify.me'', ''/api''),
            Transport = RoundTrip \<lparr>apiKey = ''secret'', next = DefaultTransport test_lib\<rparr>,
            Logger = None\<rparr>,
      None)"
proof -
  have parsed: "url_Parse test_lib ''https://api.clockify.me/api'' =
      Inr (''https://api.clockify.me'', ''/api'')"
    by (simp add: test_lib_def test_url_Parse_def)
  from parsed
    NewHttpClient_apiKey [where 's = test_log and lib = test_lib
      and baseURL' = "''https://api.clockify.me/api''" and apiKey' = "''secret''"
      and u = "(''https://api.clockify.me'', ''/api'')"]
  show ?thesis
    by (simp add: ErrorMissingAPIKey_def)
qed

subsection \<open>NewRequest\<close>

text \<open>
  With clients that agree on the base URL and whose logging leaves the buffer alone,
  what \<open>NewRequest\<close> returns does not depend on the logger or on the logger's state.
\<close>

lemma NewRequest_result_independent_of_log:
  assumes "keeps_buffer c" and "keeps_buffer c'" and "baseURL c' = baseURL c"
  shows "fst (NewRequest lib c method uri body s) = fst (NewRequest lib c' method uri body s')"
proof (cases "URL_Parse lib (baseURL c) (strings_Join [URL_Path lib (baseURL c), uri] ''/'')")
  case (Inl e)
  with assms(3) show ?thesis by (simp add: NewRequest_def)
next
  case (Inr u0)
  show ?thesis
  proof (cases "if method = ''GET'' then None else body")
    case None
    with Inr assms(3) show ?thesis
      by (simp add: NewRequest_def Let_def split: sum.splits)
  next
    case (Some b)
    show ?thesis
    proof (cases "json_Encode lib (val b)")
      case (Inl e)
      with Inr Some assms(3) show ?thesis
        by (simp add: NewRequest_def Let_def)
    next
      case enc: (Inr bs)
      obtain t where logged: "logf c ''request body: %s'' [ABuffer] (bs, s) = (bs, t)"
        using logf_keeps_buffer [OF assms(1)] by blast
      obtain t' where logged': "logf c' ''request body: %s'' [ABuffer] (bs, s') = (bs, t')"
        using logf_keeps_buffer [OF assms(2)] by blast
      from logged logged' Inr Some enc assms(3) show ?thesis
        by (simp add: NewRequest_def Let_def split: sum.splits)
    qed
  qed
qed

text \<open>
  C2. A GET built with a non-nil body value: when the URL resolves and
  \<^verbatim>\<open>http.NewRequest\<close> does not fail, \<open>NewRequest\<close> returns a request with no body and no
  \<^verbatim>\<open>Content-Type\<close>, whose URL is the resolved URL after the value's \<^verbatim>\<open>AppendToQuery\<close> if the
  value is a \<^verbatim>\<open>QueryAppender\<close> (the resolved URL itself otherwise); nothing is logged. The
  JSON encoder has no part in the result: no hypothesis constrains \<open>json_Encode\<close>, so the
  same request comes out where encoding the value would fail.
\<close>

theorem NewRequest_GET_drops_body:
  assumes "URL_Parse lib (baseURL c) (strings_Join [URL_Path lib (baseURL c), uri] ''/'') = Inr u0"
      and "http_NewRequest_err lib ''GET''
             (URL_String lib (case b of Plain x \<Rightarrow> u0 | QueryAppender x qa \<Rightarrow> qa u0)) = None"
  shows "NewRequest lib c ''GET'' uri (Some b) s =
     ((Some \<lparr>Method = ''GET'',
             URL = URL_String lib (case b of Plain x \<Rightarrow> u0 | QueryAppender x qa \<Rightarrow> qa u0),
             Header = [''Accept'' \<mapsto> [''application/json'']],
             ReqBody = None\<rparr>,
       None), s)"
  using assms
  by (cases b)
     (simp_all add: NewRequest_def http_NewRequest_def set_Header_def Header_Set_def)

text \<open>
  The instance: a GET of \<^verbatim>\<open>workspaces\<close> with a \<^verbatim>\<open>QueryAppender\<close> whose value the encoder of the
  examples rejects (it holds a double quote).
\<close>

theorem NewRequest_GET_drops_body_witness:
  "URL_Parse test_lib (baseURL (test_client (reply 200 [])))
      (strings_Join [URL_Path test_lib (baseURL (test_client (reply 200 []))), ''workspaces''] ''/'') =
     Inr (''https://api.clockify.me'', ''/api/workspaces'')
   \<and> http_NewRequest_err test_lib ''GET'' ''https://api.clockify.me/api/workspaces?page=2'' = None
   \<and> json_Encode test_lib [CHR 0x22] = Inl ''unsupported value''
   \<and> NewRequest test_lib (test_client (reply 200 [])) ''GET'' ''workspaces''
        (Some (QueryAppender [CHR 0x22] page_2)) [] =
     ((Some \<lparr>Method = ''GET'',
             URL = ''https://api.clockify.me/api/workspaces?page=2'',
             Header = [''Accept'' \<mapsto> [''application/json'']],
             ReqBody = None\<rparr>,
       None), [])"
  using NewRequest_GET_drops_body [of test_lib "test_client (reply 200 [])" "''workspaces''"
      "(''https://api.clockify.me'', ''/api/workspaces'')" "QueryAppender [CHR 0x22] page_2" "[]"]
  by (simp add: test_defs)








subsection \<open>Do\<close>

text \<open>
  With clients that agree on the transport and whose logging leaves the buffer alone,
  what \<open>Do\<close> returns does not depend on the logger or on the logger's state.
\<close>

lemma Do_result_independent_of_log:
  assumes "keeps_buffer c" and "keeps_buffer c'" and "Transport c' = Transport c"
  shows "fst (Do lib c req v s) = fst (Do lib c' req v s')"
proof (cases "http_Client_Do lib (Transport c) req")
  case (Failed r e)
  with assms(3) show ?thesis by (simp add: Do_def)
next
  case (Got r)
  show ?thesis
  proof (cases "io_Copy lib (Body r)")
    case (Inl e)
    with Got assms(3) show ?thesis by (simp add: Do_def)
  next
    case (Inr copied)
    obtain t where logged: "logf c ''url: %s, status: %d, body: \"%s\"''
        [AString (URL req), AInt (StatusCode r), ABuffer] (copied, s) = (copied, t)"
      using logf_keeps_buffer [OF assms(1)] by blast
    obtain t' where logged': "logf c' ''url: %s, status: %d, body: \"%s\"''
        [AString (URL req), AInt (StatusCode r), ABuffer] (copied, s') = (copied, t')"
      using logf_keeps_buffer [OF assms(2)] by blast
    from logged logged' Got Inr assms(3) show ?thesis
      by (simp add: Do_def split: prod.splits option.splits)
  qed
qed

text \<open>
  The branch \<^verbatim>\<open>r.StatusCode < 200 || r.StatusCode > 300\<close>, reached by every status but 404
  that satisfies the test: the buffer, as the logger left it, is decoded into a zero
  \<^verbatim>\<open>Error\<close>; \<open>Do\<close> returns the response with the wrapped \<^verbatim>\<open>Error\<close> when decoding succeeds
  and with the wrapped decoding error when it fails. The destination is not written.
\<close>

lemma Do_error_status:
  assumes "http_Client_Do lib (Transport c) req = Got r"
      and "StatusCode r < 200 \<or> 300 < StatusCode r"
      and "StatusCode r \<noteq> 404"
      and "io_Copy lib (Body r) = Inr copied"
      and "logf c ''url: %s, status: %d, body: \"%s\"''
             [AString (URL req), AInt (StatusCode r), ABuffer] (copied, s) = (buf, s')"
  shows "Do lib c req v s =
     ((Some r,
       (case json_Decode_Error lib buf zero_Error of
          (apiErr, None) \<Rightarrow> Some (withStack (ErrorValue apiErr))
        | (apiErr, Some e) \<Rightarrow> Some (withStack (LibError e))),
       v),
      s')"
  using assms
  by (auto simp add: Do_def split: prod.splits option.splits)

text \<open>
  Status 300 fails the test of that branch, for every library: with no destination \<open>Do\<close>
  returns the response and no error, whatever the body holds.
\<close>

lemma Do_status_300:
  assumes "http_Client_Do lib (Transport c) req = Got r"
      and "StatusCode r = 300"
      and "io_Copy lib (Body r) = Inr copied"
  shows "Do lib c req None s =
     ((Some r, None, None),
      snd (logf c ''url: %s, status: %d, body: \"%s\"''
             [AString (URL req), AInt (StatusCode r), ABuffer] (copied, s)))"
  using assms by (simp add: Do_def split: prod.splits)

text \<open>The two examples at status 500: an error body, and a body that is no JSON.\<close>

lemma Do_error_status_500:
  "fst (Do test_lib (test_client (reply 500 boom_body)) test_request (Some ''old'') []) =
     (Some \<lparr>StatusCode = 500, Body = boom_body\<rparr>,
      Some (withStack (ErrorValue \<lparr>Message = ''boom'', Code = 42\<rparr>)),
      Some ''old'')
   \<and> fst (Do test_lib (test_client (reply 500 ''<html>'')) test_request (Some ''old'') []) =
     (Some \<lparr>StatusCode = 500, Body = ''<html>''\<rparr>,
      Some (withStack (LibError ''invalid character'')),
      Some ''old'')"
  by (simp add: Do_def logf_def zero_Error_def test_defs boom_body_def not_found_body_def)

text \<open>
  C3. A response with status 404 whose body was read: \<open>Do\<close> returns the response
  with the wrapped \<open>ErrorNotFound\<close> and leaves the destination as it was, whatever the
  body holds and whatever the logger does to the buffer. No decoder has a part in the
  result: the theorem holds for every library, so for every behaviour of
  \<open>json_Decode_Error\<close> and \<open>json_Decode\<close>.
\<close>

theorem Do_status_404_ErrorNotFound:
  assumes "http_Client_Do lib (Transport c) req = Got r"
      and "StatusCode r = 404"
      and "io_Copy lib (Body r) = Inr buf"
  shows "Do lib c req v s =
     ((Some r, Some (withStack (ErrorValue ErrorNotFound)), v),
      snd (logf c ''url: %s, status: %d, body: \"%s\"''
             [AString (URL req), AInt (StatusCode r), ABuffer] (buf, s)))"
  using assms by (simp add: Do_def split: prod.splits)

text \<open>The instance: a 404 with an empty body, a destination supplied.\<close>

theorem Do_status_404_ErrorNotFound_witness:
  "http_Client_Do test_lib (Transport (test_client (reply 404 []))) test_request =
     Got \<lparr>StatusCode = 404, Body = []\<rparr>
   \<and> StatusCode \<lparr>StatusCode = 404, Body = []\<rparr> = 404
   \<and> io_Copy test_lib [] = Inr []
   \<and> Do test_lib (test_client (reply 404 [])) test_request (Some ''old'') [] =
     ((Some \<lparr>StatusCode = 404, Body = []\<rparr>,
       Some (withStack (ErrorValue \<lparr>Message = ''Nothing was found'', Code = 0\<rparr>)),
       Some ''old''),
      [(''url: %s, status: %d, body: \"%s\"'',
        [ASlice [AString ''https://api.clockify.me/api/workspaces'', AInt 404, ABuffer]], [])])"
  using Do_status_404_ErrorNotFound [of test_lib "test_client (reply 404 [])" test_request
      "\<lparr>StatusCode = 404, Body = []\<rparr>" "[]" "Some ''old''" "[]"]
  by (simp add: test_defs logf_def ErrorNotFound_def)



text \<open>
  The same for a response with an empty body and a client whose logging leaves the
  buffer alone, from the definition.
\<close>

lemma Do_empty_body_kept_buffer:
  assumes "http_Client_Do lib (Transport c) req = Got r"
      and "200 \<le> StatusCode r"
      and "StatusCode r < 300"
      and "io_Copy lib (Body r) = Inr []"
      and "keeps_buffer c"
  shows "fst (Do lib c req (Some d) s) = (Some r, None, Some d)"
proof -
  obtain t where "logf c ''url: %s, status: %d, body: \"%s\"''
      [AString (URL req), AInt (StatusCode r), ABuffer] ([], s) = ([], t)"
    using logf_keeps_buffer [OF assms(5)] by blast
  with assms(1-4) show ?thesis
    by (simp add: Do_def)
qed

text \<open>
  C9, as stated, fails on the code: \<^verbatim>\<open>Printf\<close> is handed the buffer that \<open>NewRequest\<close>
  makes the body of the request and that \<open>Do\<close> decodes. With a logger that reads the
  buffer to its end, the request has an empty body where it has the encoded value with
  no logger; and \<open>Do\<close> finds an empty buffer and leaves the destination as it was where
  it decodes the body into the destination with no logger.
\<close>

theorem Logger_changes_results_counterexample:
  "map_option ReqBody
     (fst (fst (NewRequest test_lib ((test_client (reply 200 []))\<lparr>Logger := None\<rparr>)
                 ''POST'' ''workspaces'' (Some (Plain ''hello'')) []))) =
     Some (Some (CHR 0x22 # ''hello'' @ [CHR 0x22, CHR 0x0A]))
   \<and> map_option ReqBody
     (fst (fst (NewRequest test_lib ((test_client (reply 200 []))\<lparr>Logger := Some draining_logger\<rparr>)
                 ''POST'' ''workspaces'' (Some (Plain ''hello'')) []))) =
     Some (Some [])
   \<and> fst (Do test_lib
            ((test_client (reply 200 (CHR 0x22 # ''new'' @ [CHR 0x22, CHR 0x0A])))\<lparr>Logger := None\<rparr>)
            test_request (Some ''old'') []) =
     (Some \<lparr>StatusCode = 200, Body = CHR 0x22 # ''new'' @ [CHR 0x22, CHR 0x0A]\<rparr>, None, Some ''new'')
   \<and> fst (Do test_lib
            ((test_client (reply 200 (CHR 0x22 # ''new'' @ [CHR 0x22, CHR 0x0A])))
               \<lparr>Logger := Some draining_logger\<rparr>)
            test_request (Some ''old'') []) =
     (Some \<lparr>StatusCode = 200, Body = CHR 0x22 # ''new'' @ [CHR 0x22, CHR 0x0A]\<rparr>, None, Some ''old'')"
  by (simp add: NewRequest_def Do_def http_NewRequest_def set_Header_def Header_Set_def logf_def
      draining_logger_def test_defs)

text \<open>
  C9, amended. For every logger whose \<^verbatim>\<open>Printf\<close> leaves the buffer it is handed as it
  found it, and for every input: whether the client's \<^verbatim>\<open>Logger\<close> is nil or that logger,
  \<open>NewRequest\<close> returns the same request and error, and \<open>Do\<close> the same response, error
  and destination. Only the logger's own state differs.
\<close>

theorem Logger_does_not_change_results:
  assumes "keeps_buffer (c\<lparr>Logger := Some l\<rparr>)"
  shows "fst (NewRequest lib (c\<lparr>Logger := None\<rparr>) method uri body s) =
           fst (NewRequest lib (c\<lparr>Logger := Some l\<rparr>) method uri body s)
       \<and> fst (Do lib (c\<lparr>Logger := None\<rparr>) req v s) =
           fst (Do lib (c\<lparr>Logger := Some l\<rparr>) req v s)"
  using NewRequest_result_independent_of_log [OF keeps_buffer_no_Logger assms, of c lib "method" uri body s s]
        Do_result_independent_of_log [OF keeps_buffer_no_Logger assms, of c lib req v s s]
  by simp

theorem Logger_does_not_change_results_witness:
  "keeps_buffer ((test_client (reply 200 (CHR 0x22 # ''new'' @ [CHR 0x22, CHR 0x0A])))
                   \<lparr>Logger := Some test_logger\<rparr>)
   \<and> fst (NewRequest test_lib
            ((test_client (reply 200 (CHR 0x22 # ''new'' @ [CHR 0x22, CHR 0x0A])))\<lparr>Logger := None\<rparr>)
            ''POST'' ''workspaces'' (Some (Plain ''hello'')) []) =
     fst (NewRequest test_lib
            ((test_client (reply 200 (CHR 0x22 # ''new'' @ [CHR 0x22, CHR 0x0A])))
               \<lparr>Logger := Some test_logger\<rparr>)
            ''POST'' ''workspaces'' (Some (Plain ''hello'')) [])
   \<and> fst (Do test_lib
            ((test_client (reply 200 (CHR 0x22 # ''new'' @ [CHR 0x22, CHR 0x0A])))
               \<lparr>Logger := Some test_logger\<rparr>)
            test_request (Some ''old'') []) =
     (Some \<lparr>StatusCode = 200, Body = CHR 0x22 # ''new'' @ [CHR 0x22, CHR 0x0A]\<rparr>, None, Some ''new'')
   \<and> fst (Do test_lib
            ((test_client (reply 200 (CHR 0x22 # ''new'' @ [CHR 0x22, CHR 0x0A])))\<lparr>Logger := None\<rparr>)
            test_request (Some ''old'') []) =
     fst (Do test_lib
            ((test_client (reply 200 (CHR 0x22 # ''new'' @ [CHR 0x22, CHR 0x0A])))
               \<lparr>Logger := Some test_logger\<rparr>)
            test_request (Some ''old'') [])"
proof -
  have keeps: "keeps_buffer ((test_client (reply 200 (CHR 0x22 # ''new'' @ [CHR 0x22, CHR 0x0A])))
                   \<lparr>Logger := Some test_logger\<rparr>)"
    by (simp add: keeps_buffer_def logf_def test_logger_def)
  have decoded: "fst (Do test_lib
            ((test_client (reply 200 (CHR 0x22 # ''new'' @ [CHR 0x22, CHR 0x0A])))
               \<lparr>Logger := Some test_logger\<rparr>)
            test_request (Some ''old'') []) =
     (Some \<lparr>StatusCode = 200, Body = CHR 0x22 # ''new'' @ [CHR 0x22, CHR 0x0A]\<rparr>, None, Some ''new'')"
    by (simp add: Do_def logf_def test_defs)
  from keeps decoded
    Logger_does_not_change_results [OF keeps, of test_lib "''POST''" "''workspaces''"
      "Some (Plain ''hello'')" "[]" test_request "Some ''old''"]
  show ?thesis
    by simp
qed

text \<open>
  C10. \<open>ErrorNotFound\<close> is a value of the record \<open>Error\<close> with message
  \<^verbatim>\<open>Nothing was found\<close> and code 0. The error \<open>Do\<close> returns for a 404 and the error it
  returns for a decoded error body are both a wrapped \<open>ErrorValue\<close>, so a test of the
  dynamic type does not tell them apart; and when the error body decodes to exactly
  the message and code of \<open>ErrorNotFound\<close>, the two errors are equal. What is decoded is
  the buffer as the logger left it.
\<close>

theorem ErrorNotFound_is_an_Error:
  assumes "http_Client_Do lib (Transport c) req = Got r"
      and "StatusCode r = 404"
      and "io_Copy lib (Body r) = Inr buf"
      and "http_Client_Do lib (Transport c') req' = Got r'"
      and "StatusCode r' < 200 \<or> 300 < StatusCode r'"
      and "StatusCode r' \<noteq> 404"
      and "io_Copy lib (Body r') = Inr copied'"
      and "fst (logf c' ''url: %s, status: %d, body: \"%s\"''
                  [AString (URL req'), AInt (StatusCode r'), ABuffer] (copied', s')) = buf'"
      and "json_Decode_Error lib buf' zero_Error = (apiErr, None)"
  shows "Message ErrorNotFound = ''Nothing was found'' \<and> Code ErrorNotFound = 0
       \<and> fst (snd (fst (Do lib c req v s))) = Some (withStack (ErrorValue ErrorNotFound))
       \<and> fst (snd (fst (Do lib c' req' v' s'))) = Some (withStack (ErrorValue apiErr))
       \<and> (Message apiErr = ''Nothing was found'' \<and> Code apiErr = 0 \<longrightarrow>
            fst (snd (fst (Do lib c' req' v' s'))) = fst (snd (fst (Do lib c req v s))))"
proof -
  have nf: "fst (snd (fst (Do lib c req v s))) = Some (withStack (ErrorValue ErrorNotFound))"
    using assms(1-3) by (simp add: Do_def split: prod.splits)
  have api: "fst (snd (fst (Do lib c' req' v' s'))) = Some (withStack (ErrorValue apiErr))"
    using assms(4-9) by (auto simp add: Do_def split: prod.splits)
  have "apiErr = ErrorNotFound" if "Message apiErr = ''Nothing was found''" "Code apiErr = 0"
    using that by (simp add: ErrorNotFound_def)
  with nf api show ?thesis
    by (simp add: ErrorNotFound_def)
qed

theorem ErrorNotFound_is_an_Error_witness:
  "http_Client_Do test_lib (Transport (test_client (reply 404 ''<html>''))) test_request =
     Got \<lparr>StatusCode = 404, Body = ''<html>''\<rparr>
   \<and> io_Copy test_lib ''<html>'' = Inr ''<html>''
   \<and> http_Client_Do test_lib (Transport (test_client (reply 500 not_found_body))) test_request =
     Got \<lparr>StatusCode = 500, Body = not_found_body\<rparr>
   \<and> (300 :: int) < StatusCode \<lparr>StatusCode = 500, Body = not_found_body\<rparr>
   \<and> StatusCode \<lparr>StatusCode = 500, Body = not_found_body\<rparr> \<noteq> 404
   \<and> io_Copy test_lib not_found_body = Inr not_found_body
   \<and> fst (logf (test_client (reply 500 not_found_body)) ''url: %s, status: %d, body: \"%s\"''
            [AString (URL test_request), AInt 500, ABuffer] (not_found_body, [])) = not_found_body
   \<and> json_Decode_Error test_lib not_found_body zero_Error =
     (\<lparr>Message = ''Nothing was found'', Code = 0\<rparr>, None)
   \<and> fst (snd (fst (Do test_lib (test_client (reply 404 ''<html>'')) test_request None []))) =
     Some (withStack (ErrorValue \<lparr>Message = ''Nothing was found'', Code = 0\<rparr>))
   \<and> fst (snd (fst (Do test_lib (test_client (reply 500 not_found_body)) test_request None []))) =
     fst (snd (fst (Do test_lib (test_client (reply 404 ''<html>'')) test_request None [])))"
proof -
  have decoded: "json_Decode_Error test_lib not_found_body zero_Error =
      (\<lparr>Message = ''Nothing was found'', Code = 0\<rparr>, None)"
    by (simp add: test_lib_def not_found_body_def boom_body_def)
  have logged: "fst (logf (test_client (reply 500 not_found_body)) ''url: %s, status: %d, body: \"%s\"''
            [AString (URL test_request), AInt 500, ABuffer] (not_found_body, [])) = not_found_body"
    by (simp add: logf_def test_client_def test_logger_def)
  from decoded logged
    ErrorNotFound_is_an_Error [of test_lib "test_client (reply 404 ''<html>'')" test_request
      "\<lparr>StatusCode = 404, Body = ''<html>''\<rparr>" "''<html>''"
      "test_client (reply 500 not_found_body)" test_request
      "\<lparr>StatusCode = 500, Body = not_found_body\<rparr>" not_found_body "[]" not_found_body
      "\<lparr>Message = ''Nothing was found'', Code = 0\<rparr>" None "[]" None]
  show ?thesis
    by (simp add: test_lib_def test_client_def reply_def ErrorNotFound_def)
qed

text \<open>
  C1. The code at status 300. The test \<^verbatim>\<open>r.StatusCode < 200 || r.StatusCode > 300\<close> is
  false there, so \<open>Do\<close> takes the success path: for a response with status 300 whose
  body is an error body, and no destination, it returns the response and no error. At
  status 301 the same body is decoded and returned as the wrapped \<^verbatim>\<open>Error\<close>.
\<close>

theorem Do_status_300_takes_success_path:
  "fst (Do test_lib (test_client (reply 300 boom_body)) test_request None []) =
     (Some \<lparr>StatusCode = 300, Body = boom_body\<rparr>, None, None)
   \<and> fst (Do test_lib (test_client (reply 301 boom_body)) test_request None []) =
     (Some \<lparr>StatusCode = 301, Body = boom_body\<rparr>,
      Some (withStack (ErrorValue \<lparr>Message = ''boom'', Code = 42\<rparr>)),
      None)"
  by (simp add: Do_def logf_def zero_Error_def test_defs)

text \<open>
  C6. The code at status 300 with a destination supplied: status 300 is neither in the
  range from 200 up to, not including, 300 nor 404, yet the body is not decoded as an
  \<^verbatim>\<open>Error\<close>. \<open>Do\<close> decodes it into the destination; the error decoder would have
  rejected this body, and no decoding error is returned. For every status below 200 or
  above 300, 404 apart, \<open>Do_error_status\<close> shows the body decoded as an \<^verbatim>\<open>Error\<close>.
\<close>

theorem Do_status_300_decodes_no_Error:
  "fst (Do test_lib (test_client (reply 300 (CHR 0x22 # ''new'' @ [CHR 0x22, CHR 0x0A])))
          test_request (Some ''old'') []) =
     (Some \<lparr>StatusCode = 300, Body = CHR 0x22 # ''new'' @ [CHR 0x22, CHR 0x0A]\<rparr>, None, Some ''new'')
   \<and> json_Decode_Error test_lib (CHR 0x22 # ''new'' @ [CHR 0x22, CHR 0x0A]) zero_Error =
     (zero_Error, Some ''invalid character'')"
  by (simp add: Do_def logf_def zero_Error_def test_defs boom_body_def not_found_body_def)

end
